theory Spec2Isabelle
  imports Complex_Main
begin

section \<open>Personal finance tracker: a shallow embedding of app.py\<close>

text \<open>
  The development follows \<^verbatim>\<open>src/app.py\<close>: the password policy, the three
  SQLite tables with the statements run against them, the pandas expressions of
  \<^verbatim>\<open>check_budget_notifications\<close>, and the tiered messages it builds.

  Modelling decisions, all visible in the definitions below:
  \<^item> a Python \<^verbatim>\<open>str\<close> is the list of its Unicode code points, so that
    \<^verbatim>\<open>len\<close> is \<open>length\<close>;
  \<^item> the database is a record of three row lists in rowid order, passed in and
    returned; a query without ORDER BY returns rows in that order;
  \<^item> a stored REAL is the rational value of a finite double; every sum, quotient and
    product the code computes on them is an IEEE 754 binary64 operation, rounded to
    nearest with ties to even, with overflow to the infinities and with NaN (the sign
    of a zero is not kept: no message ever prints a zero);
  \<^item> the date column holds a calendar date; its ISO text form and the parsing by
    \<^verbatim>\<open>pd.to_datetime\<close> are not modelled, only whether the column was converted;
  \<^item> \<^verbatim>\<open>hashlib.sha256(...).hexdigest()\<close> is a parameter \<open>hash_password\<close> of
    the two functions that call it;
  \<^item> every exception the code can raise is a value \<open>Inl e\<close>: the IntegrityError of
    the UNIQUE constraint, the AttributeError of the \<^verbatim>\<open>.dt\<close> accessor on a column that
    is not datetime-like, and a ZeroDivisionError for a division by 0.
\<close>

subsection \<open>Strings\<close>

type_synonym str = "int list"

definition py :: "string \<Rightarrow> str" where
  "py s = map of_char s"

subsection \<open>Floating point\<close>

datatype float64 = Finite rat | PosInf | NegInf | NaN

function bit_length :: "int \<Rightarrow> int" where
  \<comment> \<open>The number of binary digits of a positive integer.\<close>
  "bit_length n = (if n \<le> 0 then 0 else 1 + bit_length (n div 2))"
  by pat_completeness auto
termination
  by (relation "measure nat") auto

declare bit_length.simps [simp del]

definition pow2 :: "int \<Rightarrow> rat" where
  "pow2 k = (if 0 \<le> k then 2 ^ nat k else 1 / 2 ^ nat (- k))"

definition floor_log2 :: "rat \<Rightarrow> int" where
  \<comment> \<open>For \<open>x > 0\<close>, the \<open>e\<close> with \<open>2 ^ e \<le> x < 2 ^ (e + 1)\<close>.\<close>
  "floor_log2 x =
     (let (a, b) = quotient_of x; d = bit_length a - bit_length b
      in if pow2 d \<le> x then d else d - 1)"

definition round_half_even :: "rat \<Rightarrow> int" where
  "round_half_even q =
     (let f = \<lfloor>q\<rfloor>; r = q - of_int f
      in if r < 1 / 2 then f
         else if 1 / 2 < r then f + 1
         else if even f then f else f + 1)"

definition round_double :: "rat \<Rightarrow> float64" where
  \<comment> \<open>The binary64 value nearest to \<open>x\<close>, ties to even: a significand \<open>m\<close> of 53 bits
      at exponent \<open>q\<close>, the spacing of subnormals below \<open>2 ^ -1022\<close>, and an infinity
      when \<open>m * 2 ^ q\<close> reaches \<open>2 ^ 1024\<close>, which is when \<open>x\<close> does or when
      \<open>x\<close> has exponent 1023 and \<open>m\<close> rounds up to \<open>2 ^ 53\<close>.\<close>
  "round_double x =
     (if x = 0 then Finite 0
      else
        let e = floor_log2 \<bar>x\<bar>;
            q = max e (- 1022) - 52;
            m = round_half_even (\<bar>x\<bar> / pow2 q)
        in if 1023 < e \<or> (e = 1023 \<and> 2 ^ 53 \<le> m)
           then (if 0 < x then PosInf else NegInf)
           else Finite ((if 0 < x then 1 else - 1) * of_int m * pow2 q))"

definition py_float :: "rat \<Rightarrow> rat" where
  \<comment> \<open>The value of the float that a decimal number is read as, for finite results.\<close>
  "py_float x = (case round_double x of Finite r \<Rightarrow> r | _ \<Rightarrow> 0)"

fun float_neg :: "float64 \<Rightarrow> float64" where
  "float_neg (Finite x) = Finite (- x)"
| "float_neg PosInf = NegInf"
| "float_neg NegInf = PosInf"
| "float_neg NaN = NaN"

fun float_add :: "float64 \<Rightarrow> float64 \<Rightarrow> float64" where
  "float_add (Finite x) (Finite y) = round_double (x + y)"
| "float_add NaN b = NaN"
| "float_add a NaN = NaN"
| "float_add PosInf NegInf = NaN"
| "float_add NegInf PosInf = NaN"
| "float_add PosInf b = PosInf"
| "float_add a PosInf = PosInf"
| "float_add NegInf b = NegInf"
| "float_add a NegInf = NegInf"

definition float_sub :: "float64 \<Rightarrow> float64 \<Rightarrow> float64" where
  "float_sub a b = float_add a (float_neg b)"

fun float_mul :: "float64 \<Rightarrow> float64 \<Rightarrow> float64" where
  "float_mul (Finite x) (Finite y) = round_double (x * y)"
| "float_mul NaN b = NaN"
| "float_mul a NaN = NaN"
| "float_mul (Finite x) b =
     (if x = 0 then NaN else if 0 < x then b else float_neg b)"
| "float_mul a (Finite y) =
     (if y = 0 then NaN else if 0 < y then a else float_neg a)"
| "float_mul PosInf b = b"
| "float_mul NegInf b = float_neg b"

fun float_div :: "float64 \<Rightarrow> float64 \<Rightarrow> float64" where
  \<comment> \<open>The quotient for a divisor that is not zero.\<close>
  "float_div (Finite x) (Finite y) = round_double (x / y)"
| "float_div NaN b = NaN"
| "float_div a NaN = NaN"
| "float_div (Finite x) b = Finite 0"
| "float_div a (Finite y) = (if 0 \<le> y then a else float_neg a)"
| "float_div a b = NaN"

fun float_ge :: "float64 \<Rightarrow> rat \<Rightarrow> bool" where
  \<comment> \<open>\<^verbatim>\<open>a >= c\<close> for a finite constant \<open>c\<close>; false on NaN.\<close>
  "float_ge (Finite x) c \<longleftrightarrow> c \<le> x"
| "float_ge PosInf c \<longleftrightarrow> True"
| "float_ge NegInf c \<longleftrightarrow> False"
| "float_ge NaN c \<longleftrightarrow> False"

fun float_lt :: "float64 \<Rightarrow> rat \<Rightarrow> bool" where
  \<comment> \<open>\<^verbatim>\<open>a < c\<close> for a finite constant \<open>c\<close>; false on NaN.\<close>
  "float_lt (Finite x) c \<longleftrightarrow> x < c"
| "float_lt PosInf c \<longleftrightarrow> False"
| "float_lt NegInf c \<longleftrightarrow> True"
| "float_lt NaN c \<longleftrightarrow> False"

subsection \<open>Number formatting of f-strings\<close>

function digits :: "int \<Rightarrow> str" where
  \<comment> \<open>The decimal digits of a non-negative integer, as code points from U+0030.\<close>
  "digits n = (if n < 10 then [48 + n] else digits (n div 10) @ [48 + n mod 10])"
  by pat_completeness auto
termination
  by (relation "measure nat") auto

declare digits.simps [simp del]

definition format_fixed :: "nat \<Rightarrow> rat \<Rightarrow> str" where
  \<comment> \<open>Fixed point with \<open>d\<close> digits after the point: the exact value rounded half to
      even.\<close>
  "format_fixed d x =
     (let n = round_half_even (\<bar>x\<bar> * 10 ^ d);
          ip = n div 10 ^ d;
          fp = n mod 10 ^ d
      in (if x < 0 then py ''-'' else [])
         @ digits ip
         @ (if d = 0 then []
            else py ''.'' @ replicate (d - length (digits fp)) 48 @ digits fp))"

fun format_f :: "nat \<Rightarrow> float64 \<Rightarrow> str" where
  \<comment> \<open>\<^verbatim>\<open>format(x, '.df')\<close> of a float.\<close>
  "format_f d (Finite x) = format_fixed d x"
| "format_f d PosInf = py ''inf''"
| "format_f d NegInf = py ''-inf''"
| "format_f d NaN = py ''nan''"

subsection \<open>Errors\<close>

datatype error = IntegrityError | AttributeError | ZeroDivisionError

subsection \<open>Database\<close>

record user_row =
  u_id :: int
  u_username :: str
  u_password :: str

record date =
  d_year :: int
  d_month :: int
  d_day :: int

record entry_row =
  e_id :: int
  e_user_id :: int
  e_type :: str
  e_category :: str
  e_amount :: rat
  e_date :: date

record budget_row =
  b_id :: int
  b_user_id :: int
  b_category :: str
  b_amount :: rat
  b_month :: int
  b_year :: int

record db =
  users :: "user_row list"
  users_seq :: int
  entries :: "entry_row list"
  entries_seq :: int
  budgets :: "budget_row list"
  budgets_seq :: int

definition init_db :: db where
  "init_db = \<lparr>users = [], users_seq = 0, entries = [], entries_seq = 0,
              budgets = [], budgets_seq = 0\<rparr>"

definition next_rowid :: "int \<Rightarrow> int list \<Rightarrow> int" where
  \<comment> \<open>INTEGER PRIMARY KEY AUTOINCREMENT: one more than the largest rowid ever used.\<close>
  "next_rowid seq ids = fold max ids seq + 1"

subsection \<open>User management\<close>

definition is_A_Z :: "int \<Rightarrow> bool" where
  \<comment> \<open>The character class \<^verbatim>\<open>[A-Z]\<close>: the code points from A to Z.\<close>
  "is_A_Z c \<longleftrightarrow> of_char CHR ''A'' \<le> c \<and> c \<le> of_char CHR ''Z''"

definition re_search_A_Z :: "str \<Rightarrow> bool" where
  \<comment> \<open>\<^verbatim>\<open>re.search(r"[A-Z]", password)\<close> as a truth value.\<close>
  "re_search_A_Z password = list_ex is_A_Z password"

definition validate_password :: "str \<Rightarrow> str" where
  "validate_password password =
     (if length password < 8 then py ''Password must be at least 8 characters long.''
      else if \<not> re_search_A_Z password
        then py ''Password must contain at least one uppercase letter.''
      else [])"

definition insert_user :: "db \<Rightarrow> str \<Rightarrow> str \<Rightarrow> error + db" where
  \<comment> \<open>\<^verbatim>\<open>INSERT INTO users (username, password) VALUES (?, ?)\<close> under
      \<^verbatim>\<open>username TEXT UNIQUE\<close>.\<close>
  "insert_user s username password =
     (if list_ex (\<lambda>u. u_username u = username) (users s) then Inl IntegrityError
      else
        let i = next_rowid (users_seq s) (map u_id (users s))
        in Inr (s\<lparr>users := users s @ [\<lparr>u_id = i, u_username = username,
                                         u_password = password\<rparr>],
                  users_seq := i\<rparr>))"

definition register_user :: "(str \<Rightarrow> str) \<Rightarrow> db \<Rightarrow> str \<Rightarrow> str \<Rightarrow> db \<times> bool \<times> str" where
  "register_user hash_password s username password =
     (let pwd_error = validate_password password
      in if pwd_error \<noteq> [] then (s, False, pwd_error)
         else
           case insert_user s username (hash_password password) of
             Inr s' \<Rightarrow> (s', True, py ''Account created successfully.'')
           | Inl e \<Rightarrow> (s, False, py ''Username already exists.''))"

definition login_user :: "(str \<Rightarrow> str) \<Rightarrow> db \<Rightarrow> str \<Rightarrow> str \<Rightarrow> user_row option" where
  "login_user hash_password s username password =
     find (\<lambda>u. u_username u = username \<and> u_password u = hash_password password) (users s)"

subsection \<open>Data management\<close>

definition add_entry :: "db \<Rightarrow> int \<Rightarrow> str \<Rightarrow> str \<Rightarrow> rat \<Rightarrow> date \<Rightarrow> db" where
  "add_entry s user_id etype category amount dt =
     (let i = next_rowid (entries_seq s) (map e_id (entries s))
      in s\<lparr>entries := entries s @ [\<lparr>e_id = i, e_user_id = user_id, e_type = etype,
                                     e_category = category, e_amount = amount,
                                     e_date = dt\<rparr>],
           entries_seq := i\<rparr>)"

definition budget_key :: "int \<Rightarrow> str \<Rightarrow> int \<Rightarrow> int \<Rightarrow> budget_row \<Rightarrow> bool" where
  \<comment> \<open>\<^verbatim>\<open>WHERE user_id=? AND category=? AND month=? AND year=?\<close>\<close>
  "budget_key user_id category month year b \<longleftrightarrow>
     b_user_id b = user_id \<and> b_category b = category \<and> b_month b = month \<and> b_year b = year"

definition set_budget :: "db \<Rightarrow> int \<Rightarrow> str \<Rightarrow> rat \<Rightarrow> int \<Rightarrow> int \<Rightarrow> db" where
  "set_budget s user_id category amount month year =
     (case find (budget_key user_id category month year) (budgets s) of
        Some r \<Rightarrow>
          s\<lparr>budgets := map (\<lambda>b. if budget_key user_id category month year b
                                 then b\<lparr>b_amount := amount\<rparr> else b) (budgets s)\<rparr>
      | None \<Rightarrow>
          let i = next_rowid (budgets_seq s) (map b_id (budgets s))
          in s\<lparr>budgets := budgets s @ [\<lparr>b_id = i, b_user_id = user_id,
                                         b_category = category, b_amount = amount,
                                         b_month = month, b_year = year\<rparr>],
               budgets_seq := i\<rparr>)"

datatype dtype = ObjectDtype | Datetime64

record entries_df =
  df_rows :: "entry_row list"
  df_date_dtype :: dtype

definition get_entries_df :: "db \<Rightarrow> int \<Rightarrow> entries_df" where
  \<comment> \<open>The frame of an empty result has object columns, and the date column is converted
      by \<^verbatim>\<open>pd.to_datetime\<close> only under \<^verbatim>\<open>if not df.empty\<close>.\<close>
  "get_entries_df s user_id =
     (let rows = filter (\<lambda>e. e_user_id e = user_id) (entries s)
      in \<lparr>df_rows = rows,
          df_date_dtype = (if rows \<noteq> [] then Datetime64 else ObjectDtype)\<rparr>)"

definition get_budgets :: "db \<Rightarrow> int \<Rightarrow> int \<Rightarrow> int \<Rightarrow> budget_row list" where
  "get_budgets s user_id year month =
     filter (\<lambda>b. b_user_id b = user_id \<and> b_year b = year \<and> b_month b = month) (budgets s)"

subsection \<open>Budget notifications\<close>

definition dt_accessor :: "entries_df \<Rightarrow> error + entry_row list" where
  \<comment> \<open>\<^verbatim>\<open>df['date'].dt\<close>: pandas raises AttributeError ("Can only use .dt accessor with
      datetimelike values") on a column that is not datetime-like.\<close>
  "dt_accessor df =
     (if df_date_dtype df = Datetime64 then Inr (df_rows df) else Inl AttributeError)"

definition kahan_step :: "float64 \<times> float64 \<Rightarrow> float64 \<Rightarrow> float64 \<times> float64" where
  \<comment> \<open>One value added to a group by pandas' \<^verbatim>\<open>group_sum\<close> (compensated summation, as
      pandas has it since 1.2): the running sum and its compensation. A compensation
      that is NaN is reset, which happens only once a sum has left the finite range.\<close>
  "kahan_step st val =
     (let sumx = fst st; compensation = snd st;
          y = float_sub val compensation;
          t = float_add sumx y;
          c = float_sub (float_sub t sumx) y
      in (t, if c = NaN then Finite 0 else c))"

fun groupby_sum ::
  "(str \<rightharpoonup> float64 \<times> float64) \<Rightarrow> entry_row list \<Rightarrow> (str \<rightharpoonup> float64 \<times> float64)" where
  \<comment> \<open>\<^verbatim>\<open>.groupby('category')['amount'].sum()\<close>: one running sum per category that
      occurs, fed in row order.\<close>
  "groupby_sum acc [] = acc"
| "groupby_sum acc (e # es) =
     groupby_sum
       (acc(e_category e \<mapsto>
          kahan_step (case acc (e_category e) of None \<Rightarrow> (Finite 0, Finite 0)
                      | Some st \<Rightarrow> st)
            (Finite (e_amount e)))) es"

definition expense_mask :: "int \<Rightarrow> int \<Rightarrow> entry_row \<Rightarrow> bool" where
  \<comment> \<open>The boolean mask of lines 109 to 111.\<close>
  "expense_mask year month e \<longleftrightarrow>
     e_type e = py ''expense'' \<and> d_year (e_date e) = year \<and> d_month (e_date e) = month"

definition expense_totals :: "entry_row list \<Rightarrow> int \<Rightarrow> int \<Rightarrow> (str \<rightharpoonup> float64)" where
  \<comment> \<open>The Series \<^verbatim>\<open>spent\<close>: the masked rows, grouped by category and summed.\<close>
  "expense_totals rows year month =
     (\<lambda>category. map_option fst
        (groupby_sum Map.empty (filter (expense_mask year month) rows) category))"

definition spend_by_category :: "db \<Rightarrow> int \<Rightarrow> int \<Rightarrow> int \<Rightarrow> error + (str \<rightharpoonup> float64)" where
  \<comment> \<open>Lines 108 to 111: the frame of the user's entries, masked and grouped.\<close>
  "spend_by_category s user_id year month =
     (let df = get_entries_df s user_id
      in case dt_accessor df of
           Inl e \<Rightarrow> Inl e
         | Inr rows \<Rightarrow> Inr (expense_totals rows year month))"

definition series_get :: "(str \<rightharpoonup> float64) \<Rightarrow> str \<Rightarrow> float64 \<Rightarrow> float64" where
  "series_get spent key dflt = (case spent key of Some v \<Rightarrow> v | None \<Rightarrow> dflt)"

definition truediv :: "float64 \<Rightarrow> float64 \<Rightarrow> error + float64" where
  \<comment> \<open>The operator \<^verbatim>\<open>/\<close>; a zero divisor is an error, so that a division that the
      guard lets through shows in the result.\<close>
  "truediv a b = (if b = Finite 0 then Inl ZeroDivisionError else Inr (float_div a b))"

definition rupees :: "float64 \<Rightarrow> str" where
  \<comment> \<open>The rupee sign U+20B9 followed by \<^verbatim>\<open>{x:.2f}\<close>.\<close>
  "rupees x = [0x20B9] @ format_f 2 x"

definition msg_exceeded :: "str \<Rightarrow> float64 \<Rightarrow> float64 \<Rightarrow> str" where
  "msg_exceeded category used amount =
     [0x274C] @ py '' Budget EXCEEDED for '' @ category @ py ''! ''
     @ py ''Spent '' @ rupees used @ py '' of '' @ rupees amount"

definition msg_almost_used :: "str \<Rightarrow> float64 \<Rightarrow> float64 \<Rightarrow> str" where
  "msg_almost_used category used amount =
     [0x1F6A8] @ py '' Budget almost used for '' @ category @ py '' ''
     @ py ''('' @ rupees used @ py ''/'' @ rupees amount @ py '')''"

definition msg_warning :: "str \<Rightarrow> float64 \<Rightarrow> float64 \<Rightarrow> float64 \<Rightarrow> str" where
  "msg_warning category pct used amount =
     [0x1F525] @ py '' Warning: '' @ category @ py '' at ''
     @ format_f 0 (float_mul pct (Finite 100))
     @ py ''% '' @ py ''('' @ rupees used @ py ''/'' @ rupees amount @ py '')''"

definition msg_early_alert :: "str \<Rightarrow> float64 \<Rightarrow> float64 \<Rightarrow> float64 \<Rightarrow> str" where
  "msg_early_alert category pct used amount =
     [0x26A0] @ py '' Early alert: '' @ category @ py '' at ''
     @ format_f 0 (float_mul pct (Finite 100))
     @ py ''% '' @ py ''('' @ rupees used @ py ''/'' @ rupees amount @ py '')''"

definition loop_body ::
  "(str \<rightharpoonup> float64) \<Rightarrow> budget_row \<Rightarrow> str list \<Rightarrow> error + str list" where
  \<comment> \<open>One pass of \<^verbatim>\<open>for _, row in budgets.iterrows()\<close>: the list of notifications
      comes in and goes out.\<close>
  "loop_body spent row notifications =
     (let used = series_get spent (b_category row) (Finite 0);
          amount = Finite (b_amount row)
      in if b_amount row > 0 then
           case truediv used amount of
             Inl e \<Rightarrow> Inl e
           | Inr pct \<Rightarrow>
               if float_ge pct 1 then
                 Inr (notifications @ [msg_exceeded (b_category row) used amount])
               else if float_ge pct (3 / 4) then
                 Inr (notifications @ [msg_almost_used (b_category row) used amount])
               else if float_ge pct (1 / 2) then
                 Inr (notifications @ [msg_warning (b_category row) pct used amount])
               else if float_ge pct (1 / 4) then
                 Inr (notifications @ [msg_early_alert (b_category row) pct used amount])
               else Inr notifications
         else Inr notifications)"

fun iterrows ::
  "(str \<rightharpoonup> float64) \<Rightarrow> budget_row list \<Rightarrow> str list \<Rightarrow> error + str list" where
  "iterrows spent [] notifications = Inr notifications"
| "iterrows spent (row # rows) notifications =
     (case loop_body spent row notifications of
        Inl e \<Rightarrow> Inl e
      | Inr notifications' \<Rightarrow> iterrows spent rows notifications')"

definition check_budget_notifications :: "db \<Rightarrow> int \<Rightarrow> int \<Rightarrow> int \<Rightarrow> error + str list" where
  "check_budget_notifications s user_id year month =
     (let budgets = get_budgets s user_id year month
      in if budgets = [] then Inr []
         else
           case spend_by_category s user_id year month of
             Inl e \<Rightarrow> Inl e
           | Inr spent \<Rightarrow> iterrows spent budgets [])"

subsection \<open>Notions used to state the properties\<close>

definition user_entries :: "db \<Rightarrow> int \<Rightarrow> entry_row list" where
  \<comment> \<open>The rows selected by \<^verbatim>\<open>SELECT * FROM entries WHERE user_id=?\<close>.\<close>
  "user_entries s user_id = filter (\<lambda>e. e_user_id e = user_id) (entries s)"

definition emitted :: "(str \<rightharpoonup> float64) \<Rightarrow> budget_row \<Rightarrow> str list" where
  \<comment> \<open>What one pass of the loop appends for a row, read off the loop body itself.\<close>
  "emitted spent row = (case loop_body spent row [] of Inr ns \<Rightarrow> ns | Inl e \<Rightarrow> [])"

definition budget_key_of :: "budget_row \<Rightarrow> int \<times> str \<times> int \<times> int" where
  "budget_key_of b = (b_user_id b, b_category b, b_month b, b_year b)"

definition budget_keys_unique :: "db \<Rightarrow> bool" where
  \<comment> \<open>At most one budget row per (user_id, category, month, year).\<close>
  "budget_keys_unique s \<longleftrightarrow> distinct (map budget_key_of (budgets s))"

fun set_budget_calls :: "db \<Rightarrow> (int \<times> str \<times> rat \<times> int \<times> int) list \<Rightarrow> db" where
  \<comment> \<open>Calls of \<open>set_budget\<close> one after the other, each with its
      (user_id, category, amount, month, year).\<close>
  "set_budget_calls s [] = s"
| "set_budget_calls s ((user_id, category, amount, month, year) # calls) =
     set_budget_calls (set_budget s user_id category amount month year) calls"

definition username_exists :: "db \<Rightarrow> str \<Rightarrow> bool" where
  "username_exists s username \<longleftrightarrow> (\<exists>u \<in> set (users s). u_username u = username)"

definition new_user :: "(str \<Rightarrow> str) \<Rightarrow> db \<Rightarrow> str \<Rightarrow> str \<Rightarrow> user_row" where
  \<comment> \<open>The row that a successful registration inserts.\<close>
  "new_user hash_password s username password =
     \<lparr>u_id = next_rowid (users_seq s) (map u_id (users s)), u_username = username,
      u_password = hash_password password\<rparr>"

definition kahan_sum :: "float64 list \<Rightarrow> float64" where
  \<comment> \<open>The total of one group.\<close>
  "kahan_sum vs = fst (foldl kahan_step (Finite 0, Finite 0) vs)"

definition used_for :: "(str \<rightharpoonup> float64) \<Rightarrow> budget_row \<Rightarrow> float64" where
  \<comment> \<open>\<^verbatim>\<open>used\<close> of a row: its category's total, 0 when absent.\<close>
  "used_for spent row = series_get spent (b_category row) (Finite 0)"

definition pct_for :: "(str \<rightharpoonup> float64) \<Rightarrow> budget_row \<Rightarrow> float64" where
  \<comment> \<open>The ratio \<^verbatim>\<open>used / row['amount']\<close> of a row with a positive amount.\<close>
  "pct_for spent row = float_div (used_for spent row) (Finite (b_amount row))"

subsection \<open>Concrete databases\<close>

definition food_row :: budget_row where
  \<comment> \<open>The budget row Food = 1000 for June 2024 of user 1.\<close>
  "food_row = \<lparr>b_id = 1, b_user_id = 1, b_category = py ''Food'', b_amount = 1000,
                b_month = 6, b_year = 2024\<rparr>"

definition food_spent :: "rat \<Rightarrow> (str \<rightharpoonup> float64)" where
  \<comment> \<open>Totals with the one category Food.\<close>
  "food_spent v = Map.empty(py ''Food'' \<mapsto> Finite v)"

definition sample_hash :: "str \<Rightarrow> str" where
  \<comment> \<open>A stand-in for the digest, to run the functions that take it as a parameter.\<close>
  "sample_hash password = py ''sha256:'' @ password"

definition alice_db :: db where
  \<comment> \<open>The empty database after alice registered with Password1.\<close>
  "alice_db = fst (register_user sample_hash init_db (py ''alice'') (py ''Password1''))"

definition food_budget_db :: db where
  \<comment> \<open>Budget Food = 1000 for June 2024 and no entry at all.\<close>
  "food_budget_db = set_budget init_db 1 (py ''Food'') 1000 6 2024"

definition scenario_db :: db where
  \<comment> \<open>The scenario of the specification: the Food budget, two Food expenses and one
      Salary income in June 2024.\<close>
  "scenario_db =
     add_entry (add_entry (add_entry food_budget_db
       1 (py ''expense'') (py ''Food'') 300 \<lparr>d_year = 2024, d_month = 6, d_day = 5\<rparr>)
       1 (py ''expense'') (py ''Food'') 450 \<lparr>d_year = 2024, d_month = 6, d_day = 20\<rparr>)
       1 (py ''income'') (py ''Salary'') 5000 \<lparr>d_year = 2024, d_month = 6, d_day = 1\<rparr>"

definition zero_budget_db :: db where
  \<comment> \<open>Budget Food = 0 for June 2024 with a Food expense of 500 in that month.\<close>
  "zero_budget_db =
     add_entry (set_budget init_db 1 (py ''Food'') 0 6 2024)
       1 (py ''expense'') (py ''Food'') 500 \<lparr>d_year = 2024, d_month = 6, d_day = 5\<rparr>"

definition negative_budget_db :: db where
  \<comment> \<open>Budget Food = -100 for June 2024 with a Food expense of 500 in that month.\<close>
  "negative_budget_db =
     add_entry (set_budget init_db 1 (py ''Food'') (- 100) 6 2024)
       1 (py ''expense'') (py ''Food'') 500 \<lparr>d_year = 2024, d_month = 6, d_day = 5\<rparr>"

definition heavy_spend_db :: db where
  \<comment> \<open>No budget, and a Food expense of 99999 in June 2024.\<close>
  "heavy_spend_db =
     add_entry init_db
       1 (py ''expense'') (py ''Food'') 99999 \<lparr>d_year = 2024, d_month = 6, d_day = 5\<rparr>"

definition other_month_db :: db where
  \<comment> \<open>The Food budget for June 2024, and entries that are no expense of that month.\<close>
  "other_month_db =
     add_entry (add_entry food_budget_db
       1 (py ''expense'') (py ''Food'') 900 \<lparr>d_year = 2024, d_month = 5, d_day = 31\<rparr>)
       1 (py ''income'') (py ''Food'') 900 \<lparr>d_year = 2024, d_month = 6, d_day = 1\<rparr>"

definition june :: "int \<Rightarrow> date" where
  "june day = \<lparr>d_year = 2024, d_month = 6, d_day = day\<rparr>"

definition tiers_db :: db where
  \<comment> \<open>Six budgets of user 1 for June 2024, in this order: Food, Transport, Bills, Health
      and Other at 1000 each and Shopping at 0; expenses of that month: Food 1200.50,
      Transport 300 and 450, Bills 575, Health 260, Other 100, Shopping 50; besides
      them a Salary income, an Other expense of May and a Health expense of user 2.\<close>
  "tiers_db =
     add_entry (add_entry (add_entry (add_entry (add_entry (add_entry (add_entry
       (add_entry (add_entry (add_entry
         (set_budget_calls init_db
            [(1, py ''Food'', 1000, 6, 2024), (1, py ''Transport'', 1000, 6, 2024),
             (1, py ''Bills'', 1000, 6, 2024), (1, py ''Health'', 1000, 6, 2024),
             (1, py ''Other'', 1000, 6, 2024), (1, py ''Shopping'', 0, 6, 2024)])
       1 (py ''income'') (py ''Salary'') 5000 (june 1))
       1 (py ''expense'') (py ''Transport'') 300 (june 2))
       1 (py ''expense'') (py ''Health'') 260 (june 3))
       1 (py ''expense'') (py ''Food'') (2401 / 2) (june 5))
       1 (py ''expense'') (py ''Other'') 900 \<lparr>d_year = 2024, d_month = 5, d_day = 31\<rparr>)
       1 (py ''expense'') (py ''Bills'') 575 (june 8))
       2 (py ''expense'') (py ''Health'') 900 (june 9))
       1 (py ''expense'') (py ''Transport'') 450 (june 20))
       1 (py ''expense'') (py ''Other'') 100 (june 21))
       1 (py ''expense'') (py ''Shopping'') 50 (june 22)"

definition cents_db :: db where
  \<comment> \<open>Budget Food = 0.05 for June 2024 with Food expenses of 0.04 and 0.01, each the
      float that the decimal is read as.\<close>
  "cents_db =
     add_entry (add_entry (set_budget init_db 1 (py ''Food'') (py_float (5 / 100)) 6 2024)
       1 (py ''expense'') (py ''Food'') (py_float (4 / 100)) (june 5))
       1 (py ''expense'') (py ''Food'') (py_float (1 / 100)) (june 20)"

section \<open>Properties\<close>

subsection \<open>Password policy\<close>

lemma validate_password_cases:
  "validate_password p =
     (if length p < 8 then py ''Password must be at least 8 characters long.''
      else if \<not> (\<exists>c \<in> set p. is_A_Z c)
        then py ''Password must contain at least one uppercase letter.''
      else [])"
  by (simp add: validate_password_def re_search_A_Z_def list_ex_iff)

text \<open>
  Claim C4. \<open>validate_password p\<close> is the empty string exactly when \<open>p\<close> has at least
  8 code points and one of them is in A to Z (the uppercase letters of the regular
  expression \<^verbatim>\<open>[A-Z]\<close>); when both rules are violated the length message is returned.
\<close>

theorem validate_password_empty_iff:
  "(validate_password p = [] \<longleftrightarrow> 8 \<le> length p \<and> (\<exists>c \<in> set p. is_A_Z c))
   \<and> (length p < 8 \<and> \<not> (\<exists>c \<in> set p. is_A_Z c)
        \<longrightarrow> validate_password p = py ''Password must be at least 8 characters long.'')"
  by (simp add: validate_password_cases py_def)

theorem validate_password_empty_iff_witness:
  "(8 \<le> length (py ''Password1'') \<and> (\<exists>c \<in> set (py ''Password1''). is_A_Z c))
   \<and> validate_password (py ''Password1'') = []
   \<and> (length (py ''short'') < 8 \<and> \<not> (\<exists>c \<in> set (py ''short''). is_A_Z c))
   \<and> validate_password (py ''short'') = py ''Password must be at least 8 characters long.''"
proof -
  have a: "8 \<le> length (py ''Password1'') \<and> (\<exists>c \<in> set (py ''Password1''). is_A_Z c)"
    by (simp add: py_def is_A_Z_def)
  have b: "length (py ''short'') < 8 \<and> \<not> (\<exists>c \<in> set (py ''short''). is_A_Z c)"
    by (simp add: py_def is_A_Z_def)
  from a b validate_password_empty_iff [of "py ''Password1''"]
    validate_password_empty_iff [of "py ''short''"]
  show ?thesis by blast
qed

subsection \<open>The notification loop\<close>

lemma loop_body_emitted: "loop_body spent row ns = Inr (ns @ emitted spent row)"
  by (simp add: loop_body_def emitted_def truediv_def Let_def)

lemma iterrows_emitted:
  "iterrows spent rows ns = Inr (ns @ concat (map (emitted spent) rows))"
  by (induction rows arbitrary: ns) (simp_all add: loop_body_emitted)

lemma spend_by_category_cases:
  "spend_by_category s user_id year month =
     (if user_entries s user_id = [] then Inl AttributeError
      else Inr (expense_totals (user_entries s user_id) year month))"
  by (simp add: spend_by_category_def get_entries_df_def dt_accessor_def user_entries_def
        Let_def)

lemma check_budget_notifications_cases:
  "check_budget_notifications s user_id year month =
     (if get_budgets s user_id year month = [] then Inr []
      else if user_entries s user_id = [] then Inl AttributeError
      else Inr (concat (map (emitted (expense_totals (user_entries s user_id) year month))
                            (get_budgets s user_id year month))))"
  by (simp add: check_budget_notifications_def spend_by_category_cases iterrows_emitted
        Let_def)

lemma round_double_zero: "round_double 0 = Finite 0"
  by (simp add: round_double_def)

lemma float_div_zero: "float_div (Finite 0) (Finite a) = Finite 0"
  by (simp add: round_double_zero)

lemma float_lt_not_ge: "float_lt p c \<Longrightarrow> c \<le> c' \<Longrightarrow> \<not> float_ge p c'"
  by (cases p) auto

lemma emitted_positive:
  "0 < b_amount row \<Longrightarrow>
   emitted spent row =
     (let used = used_for spent row; pct = pct_for spent row; amount = Finite (b_amount row)
      in if float_ge pct 1 then [msg_exceeded (b_category row) used amount]
         else if float_ge pct (3 / 4) then [msg_almost_used (b_category row) used amount]
         else if float_ge pct (1 / 2) then [msg_warning (b_category row) pct used amount]
         else if float_ge pct (1 / 4) then [msg_early_alert (b_category row) pct used amount]
         else [])"
  by (simp add: emitted_def loop_body_def truediv_def used_for_def pct_for_def Let_def)

lemma emitted_nonpositive: "b_amount row \<le> 0 \<Longrightarrow> emitted spent row = []"
  by (simp add: emitted_def loop_body_def)

lemma emitted_unused: "used_for spent row = Finite 0 \<Longrightarrow> emitted spent row = []"
proof (cases "0 < b_amount row")
  case True
  assume "used_for spent row = Finite 0"
  with True have "pct_for spent row = Finite 0"
    by (simp only: pct_for_def float_div_zero)
  with True show ?thesis
    by (simp add: emitted_positive)
next
  case False
  then show ?thesis by (simp add: emitted_nonpositive)
qed

lemma groupby_sum_lookup:
  "groupby_sum acc es k =
     (if \<exists>e \<in> set es. e_category e = k
      then Some (foldl kahan_step
                   (case acc k of None \<Rightarrow> (Finite 0, Finite 0) | Some st \<Rightarrow> st)
                   (map (\<lambda>e. Finite (e_amount e)) (filter (\<lambda>e. e_category e = k) es)))
      else acc k)"
proof (induction es arbitrary: acc)
  case Nil
  show ?case by simp
next
  case (Cons e es)
  show ?case
    by (cases "e_category e = k"; cases "\<exists>e \<in> set es. e_category e = k";
        simp add: Cons.IH)
qed

lemma expense_totals_lookup:
  "expense_totals rows year month k =
     (if \<exists>e \<in> set rows. expense_mask year month e \<and> e_category e = k
      then Some (kahan_sum (map (\<lambda>e. Finite (e_amount e))
                   (filter (\<lambda>e. expense_mask year month e \<and> e_category e = k) rows)))
      else None)"
proof -
  have "filter (\<lambda>e. e_category e = k) (filter (expense_mask year month) rows)
          = filter (\<lambda>e. expense_mask year month e \<and> e_category e = k) rows"
    by (simp add: conj_commute)
  moreover have "(\<exists>e \<in> set (filter (expense_mask year month) rows). e_category e = k)
          = (\<exists>e \<in> set rows. expense_mask year month e \<and> e_category e = k)"
    by auto
  ultimately show ?thesis
    by (simp only: expense_totals_def groupby_sum_lookup kahan_sum_def) simp
qed

lemma emitted_tiers:
  assumes "0 < b_amount row"
  shows "(float_ge (pct_for spent row) 1 \<longrightarrow>
            emitted spent row
              = [msg_exceeded (b_category row) (used_for spent row) (Finite (b_amount row))])
       \<and> (float_ge (pct_for spent row) (3 / 4) \<and> float_lt (pct_for spent row) 1 \<longrightarrow>
            emitted spent row
              = [msg_almost_used (b_category row) (used_for spent row)
                   (Finite (b_amount row))])
       \<and> (float_ge (pct_for spent row) (1 / 2) \<and> float_lt (pct_for spent row) (3 / 4) \<longrightarrow>
            emitted spent row
              = [msg_warning (b_category row) (pct_for spent row) (used_for spent row)
                   (Finite (b_amount row))])
       \<and> (float_ge (pct_for spent row) (1 / 4) \<and> float_lt (pct_for spent row) (1 / 2) \<longrightarrow>
            emitted spent row
              = [msg_early_alert (b_category row) (pct_for spent row) (used_for spent row)
                   (Finite (b_amount row))])
       \<and> (float_lt (pct_for spent row) (1 / 4) \<or> pct_for spent row = NaN \<longrightarrow>
            emitted spent row = [])"
proof -
  define p where "p = pct_for spent row"
  define u where "u = used_for spent row"
  define a where "a = Finite (b_amount row)"
  have e: "emitted spent row =
          (if float_ge p 1 then [msg_exceeded (b_category row) u a]
           else if float_ge p (3 / 4) then [msg_almost_used (b_category row) u a]
           else if float_ge p (1 / 2) then [msg_warning (b_category row) p u a]
           else if float_ge p (1 / 4) then [msg_early_alert (b_category row) p u a]
           else [])"
    unfolding p_def u_def a_def
    using emitted_positive [OF assms, of spent] by (simp only: Let_def)
  have n1: "float_lt p 1 \<Longrightarrow> \<not> float_ge p 1"
    and n2: "float_lt p (3 / 4) \<Longrightarrow> \<not> float_ge p 1 \<and> \<not> float_ge p (3 / 4)"
    and n3: "float_lt p (1 / 2) \<Longrightarrow>
               \<not> float_ge p 1 \<and> \<not> float_ge p (3 / 4) \<and> \<not> float_ge p (1 / 2)"
    and n4: "float_lt p (1 / 4) \<or> p = NaN \<Longrightarrow>
               \<not> float_ge p 1 \<and> \<not> float_ge p (3 / 4) \<and> \<not> float_ge p (1 / 2)
               \<and> \<not> float_ge p (1 / 4)"
    by (cases p; auto)+
  show ?thesis
    unfolding p_def [symmetric] u_def [symmetric] a_def [symmetric]
    using n1 n2 n3 n4 by (simp add: e)
qed

lemma emitted_no_entries: "emitted (expense_totals [] year month) row = []"
  by (rule emitted_unused) (simp add: used_for_def expense_totals_def series_get_def)

lemma scenario_run:
  "used_for (expense_totals (user_entries scenario_db 1) 2024 6) food_row = Finite 750
   \<and> pct_for (expense_totals (user_entries scenario_db 1) 2024 6) food_row = Finite (3 / 4)
   \<and> get_budgets scenario_db 1 2024 6 = [food_row]
   \<and> check_budget_notifications scenario_db 1 2024 6
       = Inr [[0x1F6A8] @ py '' Budget almost used for Food ('' @ [0x20B9] @ py ''750.00/''
              @ [0x20B9] @ py ''1000.00)'']"
  by code_simp

lemma tiers_run:
  "check_budget_notifications tiers_db 1 2024 6 =
     Inr [[0x274C] @ py '' Budget EXCEEDED for Food! Spent '' @ [0x20B9] @ py ''1200.50 of ''
            @ [0x20B9] @ py ''1000.00'',
          [0x1F6A8] @ py '' Budget almost used for Transport ('' @ [0x20B9] @ py ''750.00/''
            @ [0x20B9] @ py ''1000.00)'',
          [0x1F525] @ py '' Warning: Bills at 57% ('' @ [0x20B9] @ py ''575.00/''
            @ [0x20B9] @ py ''1000.00)'',
          [0x26A0] @ py '' Early alert: Health at 26% ('' @ [0x20B9] @ py ''260.00/''
            @ [0x20B9] @ py ''1000.00)'']"
  by code_simp

lemma cents_run:
  "check_budget_notifications cents_db 1 2024 6 =
     Inr [[0x274C] @ py '' Budget EXCEEDED for Food! Spent '' @ [0x20B9] @ py ''0.05 of ''
            @ [0x20B9] @ py ''0.05'']"
  by code_simp

lemma rounding_runs:
  "py_float (5 / 100) = 3602879701896397 / 72057594037927936
   \<and> kahan_sum [Finite (py_float (4 / 100)), Finite (py_float (1 / 100))]
       = Finite (py_float (5 / 100))
   \<and> float_mul (float_div (Finite 575) (Finite 1000)) (Finite 100) \<noteq> Finite (115 / 2)
   \<and> float_lt (float_mul (float_div (Finite 575) (Finite 1000)) (Finite 100)) (115 / 2)
   \<and> emitted (food_spent 545) food_row
       = [[0x1F525] @ py '' Warning: Food at 55% ('' @ [0x20B9] @ py ''545.00/''
          @ [0x20B9] @ py ''1000.00)'']"
  by code_simp

lemma set_budget_budgets:
  "budgets (set_budget s u c a m y) =
     (if \<exists>b \<in> set (budgets s). budget_key u c m y b
      then map (\<lambda>b. if budget_key u c m y b then b\<lparr>b_amount := a\<rparr> else b) (budgets s)
      else budgets s @ [\<lparr>b_id = next_rowid (budgets_seq s) (map b_id (budgets s)),
                          b_user_id = u, b_category = c, b_amount = a,
                          b_month = m, b_year = y\<rparr>])"
proof (cases "find (budget_key u c m y) (budgets s)")
  case None
  then have "\<not> (\<exists>b \<in> set (budgets s). budget_key u c m y b)"
    by (simp add: find_None_iff)
  with None show ?thesis
    by (simp add: set_budget_def Let_def)
next
  case (Some r)
  then have "\<exists>b \<in> set (budgets s). budget_key u c m y b"
    by (auto simp: find_Some_iff)
  with Some show ?thesis
    by (simp add: set_budget_def)
qed

lemma set_budget_stores_amount:
  "\<exists>row \<in> set (get_budgets (set_budget s u c a m y) u y m).
      b_category row = c \<and> b_amount row = a"
proof (cases "\<exists>b \<in> set (budgets s). budget_key u c m y b")
  case True
  then obtain b where b: "b \<in> set (budgets s)" "budget_key u c m y b"
    by blast
  then have "b\<lparr>b_amount := a\<rparr> \<in> set (budgets (set_budget s u c a m y))"
    using True by (force simp: set_budget_budgets)
  with b(2) show ?thesis
    by (auto simp: get_budgets_def budget_key_def intro!: bexI [of _ "b\<lparr>b_amount := a\<rparr>"])
next
  case False
  define new where "new = \<lparr>b_id = next_rowid (budgets_seq s) (map b_id (budgets s)),
      b_user_id = u, b_category = c, b_amount = a, b_month = m, b_year = y\<rparr>"
  from False have "new \<in> set (budgets (set_budget s u c a m y))"
    by (simp add: set_budget_budgets new_def)
  then have "new \<in> set (get_budgets (set_budget s u c a m y) u y m)"
    by (simp add: get_budgets_def new_def)
  moreover have "b_category new = c \<and> b_amount new = a"
    by (simp add: new_def)
  ultimately show ?thesis by blast
qed

lemma concat_map_filter_nonempty:
  "(\<And>x. \<not> P x \<Longrightarrow> f x = []) \<Longrightarrow> concat (map f xs) = concat (map f (filter P xs))"
  by (induction xs) simp_all

lemma spend_by_category_with_entries:
  assumes "user_entries s user_id \<noteq> []"
  shows "\<exists>spent. spend_by_category s user_id year month = Inr spent
           \<and> (\<forall>c. spent c =
                 (if \<exists>e \<in> set (user_entries s user_id).
                        expense_mask year month e \<and> e_category e = c
                  then Some (kahan_sum (map (\<lambda>e. Finite (e_amount e))
                         (filter (\<lambda>e. expense_mask year month e \<and> e_category e = c)
                            (user_entries s user_id))))
                  else None))"
  using assms by (simp add: spend_by_category_cases expense_totals_lookup)

lemma unspent_category_no_message:
  assumes "user_entries s user_id \<noteq> []"
    and "\<not> (\<exists>e \<in> set (user_entries s user_id).
              expense_mask year month e \<and> e_category e = b_category row)"
  shows "used_for (expense_totals (user_entries s user_id) year month) row = Finite 0
       \<and> emitted (expense_totals (user_entries s user_id) year month) row = []
       \<and> (\<exists>out. check_budget_notifications s user_id year month = Inr out)"
proof -
  have "expense_totals (user_entries s user_id) year month (b_category row) = None"
    using assms(2) by (simp only: expense_totals_lookup if_False)
  then have u: "used_for (expense_totals (user_entries s user_id) year month) row = Finite 0"
    by (simp add: used_for_def series_get_def)
  then have "emitted (expense_totals (user_entries s user_id) year month) row = []"
    by (rule emitted_unused)
  with u assms(1) show ?thesis
    by (simp add: check_budget_notifications_cases)
qed

lemma other_month_run:
  "user_entries other_month_db 1 \<noteq> []
   \<and> get_budgets other_month_db 1 2024 6 = [food_row]
   \<and> check_budget_notifications other_month_db 1 2024 6 = Inr []"
  by code_simp

subsection \<open>Notifications\<close>

text \<open>
  Claim C1. The messages of a call are, in the order of the budget rows, what the loop
  emits for each row. For a row with a positive amount that is exactly one message,
  chosen by the first threshold that \<open>pct = used / amount\<close> reaches (1, 3/4, 1/2,
  1/4, each tier below the one above), and none when \<open>pct < 1/4\<close>; \<open>used\<close>,
  \<open>pct\<close> and the printed percentage are the floats the code computes. The call
  raises only for a user without any entry, where no row is due a message. In the
  scenario of the specification \<open>used = 750\<close>, \<open>pct = 3/4\<close>, and the result is
  the one "almost used" message for Food. Two more runs give the text of every tier:
  six budgets whose first four reach one tier each, and a budget of 0.05 whose expenses
  0.04 and 0.01 add up to it as floats.
\<close>

theorem notification_tiers:
  "check_budget_notifications s user_id year month =
     (if get_budgets s user_id year month = [] then Inr []
      else if user_entries s user_id = [] then Inl AttributeError
      else Inr (concat (map (emitted (expense_totals (user_entries s user_id) year month))
                            (get_budgets s user_id year month))))
   \<and> (user_entries s user_id = [] \<longrightarrow>
        emitted (expense_totals (user_entries s user_id) year month) row = [])
   \<and> (0 < b_amount row \<longrightarrow>
        (float_ge (pct_for spent row) 1 \<longrightarrow>
           emitted spent row
             = [msg_exceeded (b_category row) (used_for spent row) (Finite (b_amount row))])
      \<and> (float_ge (pct_for spent row) (3 / 4) \<and> float_lt (pct_for spent row) 1 \<longrightarrow>
           emitted spent row
             = [msg_almost_used (b_category row) (used_for spent row)
                  (Finite (b_amount row))])
      \<and> (float_ge (pct_for spent row) (1 / 2) \<and> float_lt (pct_for spent row) (3 / 4) \<longrightarrow>
           emitted spent row
             = [msg_warning (b_category row) (pct_for spent row) (used_for spent row)
                  (Finite (b_amount row))])
      \<and> (float_ge (pct_for spent row) (1 / 4) \<and> float_lt (pct_for spent row) (1 / 2) \<longrightarrow>
           emitted spent row
             = [msg_early_alert (b_category row) (pct_for spent row) (used_for spent row)
                  (Finite (b_amount row))])
      \<and> (float_lt (pct_for spent row) (1 / 4) \<or> pct_for spent row = NaN \<longrightarrow>
           emitted spent row = []))
   \<and> used_for (expense_totals (user_entries scenario_db 1) 2024 6) food_row = Finite 750
   \<and> pct_for (expense_totals (user_entries scenario_db 1) 2024 6) food_row = Finite (3 / 4)
   \<and> get_budgets scenario_db 1 2024 6 = [food_row]
   \<and> check_budget_notifications scenario_db 1 2024 6
       = Inr [[0x1F6A8] @ py '' Budget almost used for Food ('' @ [0x20B9] @ py ''750.00/''
              @ [0x20B9] @ py ''1000.00)'']
   \<and> check_budget_notifications tiers_db 1 2024 6 =
     Inr [[0x274C] @ py '' Budget EXCEEDED for Food! Spent '' @ [0x20B9] @ py ''1200.50 of ''
            @ [0x20B9] @ py ''1000.00'',
          [0x1F6A8] @ py '' Budget almost used for Transport ('' @ [0x20B9] @ py ''750.00/''
            @ [0x20B9] @ py ''1000.00)'',
          [0x1F525] @ py '' Warning: Bills at 57% ('' @ [0x20B9] @ py ''575.00/''
            @ [0x20B9] @ py ''1000.00)'',
          [0x26A0] @ py '' Early alert: Health at 26% ('' @ [0x20B9] @ py ''260.00/''
            @ [0x20B9] @ py ''1000.00)'']
   \<and> check_budget_notifications cents_db 1 2024 6 =
     Inr [[0x274C] @ py '' Budget EXCEEDED for Food! Spent '' @ [0x20B9] @ py ''0.05 of ''
            @ [0x20B9] @ py ''0.05'']"
proof (intro conjI)
  show "check_budget_notifications s user_id year month =
     (if get_budgets s user_id year month = [] then Inr []
      else if user_entries s user_id = [] then Inl AttributeError
      else Inr (concat (map (emitted (expense_totals (user_entries s user_id) year month))
                            (get_budgets s user_id year month))))"
    by (rule check_budget_notifications_cases)
  show "user_entries s user_id = [] \<longrightarrow>
        emitted (expense_totals (user_entries s user_id) year month) row = []"
    by (simp add: emitted_no_entries)
  show "0 < b_amount row \<longrightarrow>
        (float_ge (pct_for spent row) 1 \<longrightarrow>
           emitted spent row
             = [msg_exceeded (b_category row) (used_for spent row) (Finite (b_amount row))])
      \<and> (float_ge (pct_for spent row) (3 / 4) \<and> float_lt (pct_for spent row) 1 \<longrightarrow>
           emitted spent row
             = [msg_almost_used (b_category row) (used_for spent row)
                  (Finite (b_amount row))])
      \<and> (float_ge (pct_for spent row) (1 / 2) \<and> float_lt (pct_for spent row) (3 / 4) \<longrightarrow>
           emitted spent row
             = [msg_warning (b_category row) (pct_for spent row) (used_for spent row)
                  (Finite (b_amount row))])
      \<and> (float_ge (pct_for spent row) (1 / 4) \<and> float_lt (pct_for spent row) (1 / 2) \<longrightarrow>
           emitted spent row
             = [msg_early_alert (b_category row) (pct_for spent row) (used_for spent row)
                  (Finite (b_amount row))])
      \<and> (float_lt (pct_for spent row) (1 / 4) \<or> pct_for spent row = NaN \<longrightarrow>
           emitted spent row = [])"
    using emitted_tiers [of row spent] by blast
  show "check_budget_notifications tiers_db 1 2024 6 =
     Inr [[0x274C] @ py '' Budget EXCEEDED for Food! Spent '' @ [0x20B9] @ py ''1200.50 of ''
            @ [0x20B9] @ py ''1000.00'',
          [0x1F6A8] @ py '' Budget almost used for Transport ('' @ [0x20B9] @ py ''750.00/''
            @ [0x20B9] @ py ''1000.00)'',
          [0x1F525] @ py '' Warning: Bills at 57% ('' @ [0x20B9] @ py ''575.00/''
            @ [0x20B9] @ py ''1000.00)'',
          [0x26A0] @ py '' Early alert: Health at 26% ('' @ [0x20B9] @ py ''260.00/''
            @ [0x20B9] @ py ''1000.00)'']"
    by (rule tiers_run)
  show "check_budget_notifications cents_db 1 2024 6 =
     Inr [[0x274C] @ py '' Budget EXCEEDED for Food! Spent '' @ [0x20B9] @ py ''0.05 of ''
            @ [0x20B9] @ py ''0.05'']"
    by (rule cents_run)
qed (simp_all only: scenario_run)

theorem notification_tiers_witness:
  "(0 < b_amount food_row \<and> float_ge (pct_for (food_spent 1200) food_row) 1)
   \<and> emitted (food_spent 1200) food_row
       = [msg_exceeded (py ''Food'') (Finite 1200) (Finite 1000)]
   \<and> (float_ge (pct_for (food_spent 750) food_row) (3 / 4)
      \<and> float_lt (pct_for (food_spent 750) food_row) 1)
   \<and> emitted (food_spent 750) food_row
       = [msg_almost_used (py ''Food'') (Finite 750) (Finite 1000)]
   \<and> (float_ge (pct_for (food_spent 575) food_row) (1 / 2)
      \<and> float_lt (pct_for (food_spent 575) food_row) (3 / 4))
   \<and> emitted (food_spent 575) food_row
       = [msg_warning (py ''Food'') (pct_for (food_spent 575) food_row) (Finite 575)
            (Finite 1000)]
   \<and> (float_ge (pct_for (food_spent 260) food_row) (1 / 4)
      \<and> float_lt (pct_for (food_spent 260) food_row) (1 / 2))
   \<and> emitted (food_spent 260) food_row
       = [msg_early_alert (py ''Food'') (pct_for (food_spent 260) food_row) (Finite 260)
            (Finite 1000)]
   \<and> float_lt (pct_for (food_spent 100) food_row) (1 / 4)
   \<and> emitted (food_spent 100) food_row = []
   \<and> user_entries food_budget_db 1 = []
   \<and> emitted (expense_totals (user_entries food_budget_db 1) 2024 6) food_row = []"
proof -
  have amt: "0 < b_amount food_row" "b_amount food_row = 1000" "b_category food_row = py ''Food''"
    by (simp_all add: food_row_def)
  have u: "\<And>v. used_for (food_spent v) food_row = Finite v"
    by (simp add: used_for_def series_get_def food_spent_def food_row_def)
  have h1: "float_ge (pct_for (food_spent 1200) food_row) 1"
    by code_simp
  have h2: "float_ge (pct_for (food_spent 750) food_row) (3 / 4)
      \<and> float_lt (pct_for (food_spent 750) food_row) 1"
    by code_simp
  have h3: "float_ge (pct_for (food_spent 575) food_row) (1 / 2)
      \<and> float_lt (pct_for (food_spent 575) food_row) (3 / 4)"
    by code_simp
  have h4: "float_ge (pct_for (food_spent 260) food_row) (1 / 4)
      \<and> float_lt (pct_for (food_spent 260) food_row) (1 / 2)"
    by code_simp
  have h5: "float_lt (pct_for (food_spent 100) food_row) (1 / 4)"
    by code_simp
  have e: "user_entries food_budget_db 1 = []"
    by code_simp
  note t = notification_tiers [of _ _ _ _ food_row]
  from t [of food_budget_db 1 2024 6 "food_spent 1200"]
       t [of food_budget_db 1 2024 6 "food_spent 750"]
       t [of food_budget_db 1 2024 6 "food_spent 575"]
       t [of food_budget_db 1 2024 6 "food_spent 260"]
       t [of food_budget_db 1 2024 6 "food_spent 100"]
       h1 h2 h3 h4 h5
  show ?thesis
    by (simp add: amt u e)
qed

text \<open>
  Claim C7. A budget row whose amount is 0 goes through the loop without a division
  and without a message, whatever was spent: the list of notifications is returned as it
  came in. A call that returns therefore returns what the rows with a non-zero amount
  emit.
\<close>

theorem zero_budget_no_notification:
  "(b_amount row = 0 \<longrightarrow> loop_body spent row ns = Inr ns \<and> emitted spent row = [])
   \<and> (check_budget_notifications s user_id year month = Inr out \<longrightarrow>
        out = concat (map (emitted (expense_totals (user_entries s user_id) year month))
                (filter (\<lambda>r. b_amount r \<noteq> 0) (get_budgets s user_id year month))))"
proof (intro conjI impI)
  assume "b_amount row = 0"
  then show "loop_body spent row ns = Inr ns" by (simp add: loop_body_def)
next
  assume "b_amount row = 0"
  then show "emitted spent row = []" by (simp add: emitted_nonpositive)
next
  let ?f = "emitted (expense_totals (user_entries s user_id) year month)"
  assume "check_budget_notifications s user_id year month = Inr out"
  then have "out = concat (map ?f (get_budgets s user_id year month))"
    by (simp add: check_budget_notifications_cases split: if_splits)
  also have "\<dots> = concat (map ?f (filter (\<lambda>r. b_amount r \<noteq> 0)
                                      (get_budgets s user_id year month)))"
    by (rule concat_map_filter_nonempty) (simp add: emitted_nonpositive)
  finally show "out = concat (map ?f (filter (\<lambda>r. b_amount r \<noteq> 0)
                                        (get_budgets s user_id year month)))" .
qed

theorem zero_budget_no_notification_witness:
  "b_amount (food_row\<lparr>b_amount := 0\<rparr>) = 0
   \<and> used_for (food_spent 500) (food_row\<lparr>b_amount := 0\<rparr>) = Finite 500
   \<and> loop_body (food_spent 500) (food_row\<lparr>b_amount := 0\<rparr>) [] = Inr []
   \<and> emitted (food_spent 500) (food_row\<lparr>b_amount := 0\<rparr>) = []
   \<and> get_budgets zero_budget_db 1 2024 6 = [food_row\<lparr>b_amount := 0\<rparr>]
   \<and> used_for (expense_totals (user_entries zero_budget_db 1) 2024 6)
        (food_row\<lparr>b_amount := 0\<rparr>) = Finite 500
   \<and> check_budget_notifications zero_budget_db 1 2024 6 = Inr []
   \<and> [] = concat (map (emitted (expense_totals (user_entries zero_budget_db 1) 2024 6))
             (filter (\<lambda>r. b_amount r \<noteq> 0) (get_budgets zero_budget_db 1 2024 6)))"
proof -
  have a: "b_amount (food_row\<lparr>b_amount := 0\<rparr>) = 0"
    by simp
  have b: "used_for (food_spent 500) (food_row\<lparr>b_amount := 0\<rparr>) = Finite 500"
    by (simp add: used_for_def series_get_def food_spent_def food_row_def)
  have c: "get_budgets zero_budget_db 1 2024 6 = [food_row\<lparr>b_amount := 0\<rparr>]"
    by code_simp
  have d: "used_for (expense_totals (user_entries zero_budget_db 1) 2024 6)
        (food_row\<lparr>b_amount := 0\<rparr>) = Finite 500"
    by code_simp
  have e: "check_budget_notifications zero_budget_db 1 2024 6 = Inr []"
    by code_simp
  from zero_budget_no_notification
         [of "food_row\<lparr>b_amount := 0\<rparr>" "food_spent 500" "[]" zero_budget_db 1 2024 6 "[]"]
       a b c d e
  show ?thesis by simp
qed

text \<open>
  Claim C8. When no budget row is stored for the user and period, the call returns the
  empty list, whatever entries exist.
\<close>

theorem no_budgets_no_notifications:
  "get_budgets s user_id year month = [] \<Longrightarrow>
   check_budget_notifications s user_id year month = Inr []"
  by (simp add: check_budget_notifications_def)

theorem no_budgets_no_notifications_witness:
  "get_budgets heavy_spend_db 1 2024 6 = []
   \<and> used_for (expense_totals (user_entries heavy_spend_db 1) 2024 6) food_row
       = Finite 99999
   \<and> check_budget_notifications heavy_spend_db 1 2024 6 = Inr []"
proof -
  have a: "get_budgets heavy_spend_db 1 2024 6 = []"
    by code_simp
  have b: "used_for (expense_totals (user_entries heavy_spend_db 1) 2024 6) food_row
       = Finite 99999"
    by code_simp
  from no_budgets_no_notifications [OF a] a b show ?thesis by simp
qed

text \<open>
  Claim C10. The division sits under the guard \<open>amount > 0\<close>: a row with
  \<open>amount \<le> 0\<close> leaves the list of notifications as it is, and neither the loop nor the
  call ever raises ZeroDivisionError. Such rows can be stored: \<open>set_budget\<close> keeps any
  amount it is given.
\<close>

theorem nonpositive_budget_guard:
  "(b_amount row \<le> 0 \<longrightarrow> loop_body spent row ns = Inr ns \<and> emitted spent row = [])
   \<and> loop_body spent row ns \<noteq> Inl ZeroDivisionError
   \<and> iterrows spent rows ns \<noteq> Inl ZeroDivisionError
   \<and> check_budget_notifications s user_id year month \<noteq> Inl ZeroDivisionError
   \<and> (\<exists>r \<in> set (get_budgets (set_budget s user_id category amount month year)
                   user_id year month).
         b_category r = category \<and> b_amount r = amount)"
proof (intro conjI impI)
  assume "b_amount row \<le> 0"
  then show "loop_body spent row ns = Inr ns" by (simp add: loop_body_def)
next
  assume "b_amount row \<le> 0"
  then show "emitted spent row = []" by (rule emitted_nonpositive)
next
  show "loop_body spent row ns \<noteq> Inl ZeroDivisionError"
    by (simp add: loop_body_emitted)
  show "iterrows spent rows ns \<noteq> Inl ZeroDivisionError"
    by (simp add: iterrows_emitted)
  show "check_budget_notifications s user_id year month \<noteq> Inl ZeroDivisionError"
    by (simp add: check_budget_notifications_cases)
  show "\<exists>r \<in> set (get_budgets (set_budget s user_id category amount month year)
                   user_id year month).
         b_category r = category \<and> b_amount r = amount"
    by (rule set_budget_stores_amount)
qed

theorem nonpositive_budget_guard_witness:
  "b_amount (food_row\<lparr>b_amount := - 100\<rparr>) \<le> 0
   \<and> loop_body (food_spent 500) (food_row\<lparr>b_amount := - 100\<rparr>) [] = Inr []
   \<and> emitted (food_spent 500) (food_row\<lparr>b_amount := - 100\<rparr>) = []
   \<and> get_budgets negative_budget_db 1 2024 6 = [food_row\<lparr>b_amount := - 100\<rparr>]
   \<and> check_budget_notifications negative_budget_db 1 2024 6 = Inr []
   \<and> check_budget_notifications negative_budget_db 1 2024 6 \<noteq> Inl ZeroDivisionError
   \<and> (\<exists>r \<in> set (get_budgets (set_budget init_db 1 (py ''Food'') (- 100) 6 2024) 1 2024 6).
         b_category r = py ''Food'' \<and> b_amount r = - 100)"
proof -
  have a: "b_amount (food_row\<lparr>b_amount := - 100\<rparr>) \<le> 0"
    by simp
  have c: "get_budgets negative_budget_db 1 2024 6 = [food_row\<lparr>b_amount := - 100\<rparr>]"
    by code_simp
  have e: "check_budget_notifications negative_budget_db 1 2024 6 = Inr []"
    by code_simp
  from nonpositive_budget_guard
         [of "food_row\<lparr>b_amount := - 100\<rparr>" "food_spent 500" "[]" "[]"
             negative_budget_db 1 2024 6 "py ''Food''" "- 100"]
       nonpositive_budget_guard
         [of "food_row\<lparr>b_amount := - 100\<rparr>" "food_spent 500" "[]" "[]"
             init_db 1 2024 6 "py ''Food''" "- 100"]
       a c e
  show ?thesis by simp
qed

text \<open>
  Claim C5. The totals per category are to be the sums over the user's expense entries
  of the requested year and month, with no key for a category without such an entry.
  For a user with at least one stored entry that is what the code computes
  (\<open>spend_by_category_with_entries\<close>). For a user without any entry the expression of
  lines 108 to 111 raises instead of giving the empty mapping: the frame of an empty
  result keeps its object-typed date column, and \<^verbatim>\<open>.dt\<close> rejects it. The theorem
  runs the code on such a user.
\<close>

theorem spend_by_category_no_entries:
  "user_entries food_budget_db 1 = []
   \<and> spend_by_category food_budget_db 1 2024 6 = Inl AttributeError"
  by (simp add: spend_by_category_cases) code_simp

text \<open>
  Claim C6. A budget row whose category has no expense of the period is to get
  \<open>used = 0\<close> and no message, also when the user has no entry at all. As long as the
  user has some entry the code does so (\<open>unspent_category_no_message\<close>). For a user
  with a budget row and no entry at all the call raises AttributeError before
  \<open>used\<close> is computed; the theorem runs the code on such a user.
\<close>

theorem notifications_no_entries:
  "get_budgets food_budget_db 1 2024 6 = [food_row]
   \<and> user_entries food_budget_db 1 = []
   \<and> check_budget_notifications food_budget_db 1 2024 6 = Inl AttributeError"
  by code_simp

subsection \<open>Budget store\<close>

lemma budget_key_iff: "budget_key u c m y b \<longleftrightarrow> budget_key_of b = (u, c, m, y)"
  by (auto simp: budget_key_def budget_key_of_def)

lemma keys_after_update:
  "map budget_key_of (map (\<lambda>b. if budget_key u c m y b then b\<lparr>b_amount := a\<rparr> else b) bs)
     = map budget_key_of bs"
  by (induction bs) (simp_all add: budget_key_of_def)

lemma set_budget_keys:
  "map budget_key_of (budgets (set_budget s u c a m y)) =
     (if (u, c, m, y) \<in> set (map budget_key_of (budgets s)) then map budget_key_of (budgets s)
      else map budget_key_of (budgets s) @ [(u, c, m, y)])"
proof -
  have e: "(\<exists>b \<in> set (budgets s). budget_key u c m y b)
             \<longleftrightarrow> (u, c, m, y) \<in> set (map budget_key_of (budgets s))"
    by (force simp: budget_key_iff)
  show ?thesis
  proof (cases "\<exists>b \<in> set (budgets s). budget_key u c m y b")
    case True
    then have "budgets (set_budget s u c a m y) =
        map (\<lambda>b. if budget_key u c m y b then b\<lparr>b_amount := a\<rparr> else b) (budgets s)"
      by (simp add: set_budget_budgets)
    moreover from True e have "(u, c, m, y) \<in> set (map budget_key_of (budgets s))"
      by simp
    ultimately show ?thesis
      by (simp only: keys_after_update if_True)
  next
    case False
    moreover from False e have "(u, c, m, y) \<notin> set (map budget_key_of (budgets s))"
      by simp
    ultimately show ?thesis
      by (simp add: set_budget_budgets budget_key_of_def)
  qed
qed

lemma set_budget_unique:
  "budget_keys_unique s \<Longrightarrow> budget_keys_unique (set_budget s u c a m y)"
  by (simp add: budget_keys_unique_def set_budget_keys)

lemma set_budget_calls_unique:
  "budget_keys_unique s \<Longrightarrow> budget_keys_unique (set_budget_calls s calls)"
  by (induction s calls rule: set_budget_calls.induct) (simp_all add: set_budget_unique)

lemma set_budget_key_present:
  "(u, c, m, y) \<in> set (map budget_key_of (budgets (set_budget s u c a m y)))"
  by (simp add: set_budget_keys)

lemma set_budget_amount:
  assumes b: "b \<in> set (budgets (set_budget s u c a m y))" and k: "budget_key u c m y b"
  shows "b_amount b = a"
proof (cases "\<exists>x \<in> set (budgets s). budget_key u c m y x")
  case False
  define new where "new = \<lparr>b_id = next_rowid (budgets_seq s) (map b_id (budgets s)),
      b_user_id = u, b_category = c, b_amount = a, b_month = m, b_year = y\<rparr>"
  from False have "budgets (set_budget s u c a m y) = budgets s @ [new]"
    by (simp add: set_budget_budgets new_def)
  with b have "b \<in> set (budgets s) \<or> b = new"
    by auto
  with False k have "b = new" by blast
  then show ?thesis by (simp add: new_def)
next
  case True
  with b obtain x where x: "x \<in> set (budgets s)"
    and bx: "b = (if budget_key u c m y x then x\<lparr>b_amount := a\<rparr> else x)"
    by (auto simp: set_budget_budgets)
  show ?thesis
  proof (cases "budget_key u c m y x")
    case True
    with bx show ?thesis by simp
  next
    case False
    with bx k show ?thesis by simp
  qed
qed

lemma unique_key_filter:
  "distinct (map budget_key_of bs) \<Longrightarrow> k \<in> set (map budget_key_of bs) \<Longrightarrow>
   \<exists>row. filter (\<lambda>b. budget_key_of b = k) bs = [row]"
proof (induction bs)
  case Nil
  then show ?case by simp
next
  case (Cons b bs)
  show ?case
  proof (cases "budget_key_of b = k")
    case True
    with Cons.prems have "k \<notin> budget_key_of ` set bs" by simp
    then have "\<forall>x \<in> set bs. budget_key_of x \<noteq> k" by blast
    then have "filter (\<lambda>b. budget_key_of b = k) bs = []" by (simp add: filter_empty_conv)
    with True show ?thesis by simp
  next
    case False
    with Cons show ?thesis by auto
  qed
qed

lemma get_budgets_key_filter:
  "filter (budget_key u c m y) (get_budgets s u y m)
     = filter (\<lambda>b. budget_key_of b = (u, c, m, y)) (budgets s)"
proof -
  have "\<And>b. (budget_key u c m y b \<and> b_user_id b = u \<and> b_year b = y \<and> b_month b = m)
          = (budget_key_of b = (u, c, m, y))"
    by (auto simp: budget_key_def budget_key_of_def)
  then show ?thesis
    by (simp add: get_budgets_def conj_commute)
qed

lemma set_budget_one_row:
  assumes "budget_keys_unique s"
  shows "\<exists>row. filter (budget_key u c m y) (get_budgets (set_budget s u c a m y) u y m) = [row]
               \<and> b_amount row = a"
proof -
  let ?s' = "set_budget s u c a m y"
  have "distinct (map budget_key_of (budgets ?s'))"
    using set_budget_unique [OF assms] by (simp add: budget_keys_unique_def)
  moreover have "(u, c, m, y) \<in> set (map budget_key_of (budgets ?s'))"
    by (rule set_budget_key_present)
  ultimately obtain row
    where row: "filter (\<lambda>b. budget_key_of b = (u, c, m, y)) (budgets ?s') = [row]"
    using unique_key_filter [of "budgets ?s'" "(u, c, m, y)"] by auto
  then have "row \<in> set (filter (\<lambda>b. budget_key_of b = (u, c, m, y)) (budgets ?s'))"
    by simp
  then have "row \<in> set (budgets ?s')" and "budget_key u c m y row"
    by (simp_all add: budget_key_iff)
  then have "b_amount row = a"
    by (rule set_budget_amount)
  with row show ?thesis
    by (simp add: get_budgets_key_filter)
qed

text \<open>
  Claim C2. From a state with at most one budget row per (user_id, category, month,
  year), every sequence of \<open>set_budget\<close> calls leads to such a state again, and after two
  calls with the same key the rows of \<open>get_budgets\<close> for the period contain exactly one
  row with that key, carrying the amount of the second call.
\<close>

theorem set_budget_upsert:
  assumes "budget_keys_unique s"
  shows "budget_keys_unique (set_budget_calls s calls)
       \<and> (\<exists>row. filter (budget_key u c m y)
                   (get_budgets (set_budget (set_budget s u c a1 m y) u c a2 m y) u y m) = [row]
                 \<and> b_amount row = a2)"
proof
  show "budget_keys_unique (set_budget_calls s calls)"
    using assms by (rule set_budget_calls_unique)
  have "budget_keys_unique (set_budget s u c a1 m y)"
    using assms by (rule set_budget_unique)
  then show "\<exists>row. filter (budget_key u c m y)
                   (get_budgets (set_budget (set_budget s u c a1 m y) u c a2 m y) u y m) = [row]
                 \<and> b_amount row = a2"
    by (rule set_budget_one_row)
qed

theorem set_budget_upsert_witness:
  "budget_keys_unique food_budget_db
   \<and> budget_keys_unique
       (set_budget_calls food_budget_db
          [(1, py ''Food'', 1200, 6, 2024), (1, py ''Bills'', 300, 6, 2024),
           (1, py ''Food'', 1500, 6, 2024)])
   \<and> (\<exists>row. filter (budget_key 1 (py ''Bills'') 6 2024)
               (get_budgets (set_budget (set_budget food_budget_db 1 (py ''Bills'') 300 6 2024)
                               1 (py ''Bills'') 450 6 2024) 1 2024 6) = [row]
             \<and> b_amount row = 450)"
proof -
  have a: "budget_keys_unique food_budget_db"
    unfolding budget_keys_unique_def by code_simp
  from set_budget_upsert [OF a] a show ?thesis
    by blast
qed

lemma set_budget_twice_run:
  "get_budgets (set_budget (set_budget food_budget_db 1 (py ''Bills'') 300 6 2024)
                  1 (py ''Bills'') 450 6 2024) 1 2024 6
     = [food_row, \<lparr>b_id = 2, b_user_id = 1, b_category = py ''Bills'', b_amount = 450,
                    b_month = 6, b_year = 2024\<rparr>]"
  by code_simp

subsection \<open>Credential store\<close>

lemma messages_differ:
  "py ''Account created successfully.'' \<noteq> py ''Username already exists.''"
  "py ''Password must be at least 8 characters long.'' \<noteq> py ''Username already exists.''"
  "py ''Password must contain at least one uppercase letter.'' \<noteq> py ''Username already exists.''"
  "py ''Password must be at least 8 characters long.'' \<noteq> []"
  by (simp_all add: py_def)

lemma register_user_cases:
  "register_user H s username password =
     (if validate_password password \<noteq> [] then (s, False, validate_password password)
      else if username_exists s username then (s, False, py ''Username already exists.'')
      else (s\<lparr>users := users s @ [new_user H s username password],
              users_seq := next_rowid (users_seq s) (map u_id (users s))\<rparr>,
            True, py ''Account created successfully.''))"
  by (simp add: register_user_def insert_user_def username_exists_def list_ex_iff
        new_user_def Let_def)

lemma find_append_new:
  "\<forall>x \<in> set xs. \<not> P x \<Longrightarrow> P y \<Longrightarrow> find P (xs @ [y]) = Some y"
  by (induction xs) simp_all

lemma register_user_success:
  assumes "register_user H s username password = (s', True, msg)"
  shows "validate_password password = []" and "\<not> username_exists s username"
    and "users s' = users s @ [new_user H s username password]"
  using assms by (auto simp: register_user_cases split: if_splits)

text \<open>
  Claim C3, as the code has it. The password policy is checked first. For a password that
  passes it, registration fails with the message "Username already exists." exactly
  when the username is already stored, leaving the store as it was; otherwise it
  appends a row holding the hash of the password and returns ok = True. For a password
  that fails the policy, registration returns ok = False with the policy's message and
  stores nothing.
\<close>

theorem register_user_after_validation:
  "(validate_password password = [] \<longrightarrow>
      (snd (register_user H s username password) = (False, py ''Username already exists.'')
         \<longleftrightarrow> username_exists s username)
    \<and> (username_exists s username \<longrightarrow>
         register_user H s username password = (s, False, py ''Username already exists.''))
    \<and> (\<not> username_exists s username \<longrightarrow>
         register_user H s username password
           = (s\<lparr>users := users s @ [new_user H s username password],
                 users_seq := next_rowid (users_seq s) (map u_id (users s))\<rparr>,
              True, py ''Account created successfully.'')
         \<and> u_password (new_user H s username password) = H password))
   \<and> (validate_password password \<noteq> [] \<longrightarrow>
        register_user H s username password = (s, False, validate_password password))"
  by (simp add: register_user_cases messages_differ new_user_def)

theorem register_user_after_validation_witness:
  "validate_password (py ''Password1'') = []
   \<and> \<not> username_exists init_db (py ''alice'')
   \<and> register_user sample_hash init_db (py ''alice'') (py ''Password1'')
       = (init_db\<lparr>users := [new_user sample_hash init_db (py ''alice'') (py ''Password1'')],
                  users_seq := 1\<rparr>,
          True, py ''Account created successfully.'')
   \<and> username_exists alice_db (py ''alice'')
   \<and> register_user sample_hash alice_db (py ''alice'') (py ''Password1'')
       = (alice_db, False, py ''Username already exists.'')
   \<and> validate_password (py ''short'') \<noteq> []
   \<and> register_user sample_hash init_db (py ''alice'') (py ''short'')
       = (init_db, False, validate_password (py ''short''))"
proof -
  have a: "validate_password (py ''Password1'') = []"
    by code_simp
  have b: "\<not> username_exists init_db (py ''alice'')"
    by (simp add: username_exists_def init_db_def)
  have c: "username_exists alice_db (py ''alice'')"
    unfolding username_exists_def by code_simp
  have d: "validate_password (py ''short'') \<noteq> []"
    by code_simp
  have e: "users init_db = []" "next_rowid (users_seq init_db) [] = 1"
    by (simp_all add: init_db_def next_rowid_def)
  from register_user_after_validation [of "py ''Password1''" sample_hash init_db "py ''alice''"]
       register_user_after_validation [of "py ''Password1''" sample_hash alice_db "py ''alice''"]
       register_user_after_validation [of "py ''short''" sample_hash init_db "py ''alice''"]
       a b c d
  show ?thesis
    by (simp add: e)
qed

theorem register_weak_password_counterexample:
  "\<not> username_exists init_db (py ''alice'')
   \<and> register_user sample_hash init_db (py ''alice'') (py ''short'')
       = (init_db, False, py ''Password must be at least 8 characters long.'')
   \<and> username_exists alice_db (py ''alice'')
   \<and> snd (register_user sample_hash alice_db (py ''alice'') (py ''short''))
       \<noteq> (False, py ''Username already exists.'')"
proof -
  have "\<not> username_exists init_db (py ''alice'')"
    by (simp add: username_exists_def init_db_def)
  moreover have "username_exists alice_db (py ''alice'')"
    unfolding username_exists_def by code_simp
  moreover have "validate_password (py ''short'')
      = py ''Password must be at least 8 characters long.''"
    by (simp add: validate_password_def py_def)
  ultimately show ?thesis
    by (simp add: register_user_cases messages_differ)
qed

text \<open>
  Claim C9, as the code has it. After a successful registration, a second registration
  of the same username always fails and leaves the store as it is: with the message
  "Username already exists." when its password passes the policy, with the policy's
  message otherwise. Logging in with the username and the original password returns
  the row that the registration stored, whose password field is the hash.
\<close>

theorem register_then_login:
  assumes "register_user H s username password = (s', True, msg)"
  shows "(validate_password password2 = [] \<longrightarrow>
            register_user H s' username password2
              = (s', False, py ''Username already exists.''))
       \<and> (validate_password password2 \<noteq> [] \<longrightarrow>
            register_user H s' username password2
              = (s', False, validate_password password2))
       \<and> login_user H s' username password = Some (new_user H s username password)
       \<and> new_user H s username password \<in> set (users s')
       \<and> u_username (new_user H s username password) = username
       \<and> u_password (new_user H s username password) = H password"
proof -
  note r = register_user_success [OF assms]
  have ex: "username_exists s' username"
    by (simp add: username_exists_def r(3) new_user_def)
  have "\<forall>x \<in> set (users s). \<not> (u_username x = username \<and> u_password x = H password)"
    using r(2) by (auto simp: username_exists_def)
  then have "find (\<lambda>u. u_username u = username \<and> u_password u = H password)
               (users s @ [new_user H s username password])
             = Some (new_user H s username password)"
    by (rule find_append_new) (simp add: new_user_def)
  then have "login_user H s' username password = Some (new_user H s username password)"
    by (simp add: login_user_def r(3))
  with ex show ?thesis
    by (simp add: register_user_cases r(3) new_user_def)
qed

theorem register_then_login_witness:
  "register_user sample_hash init_db (py ''alice'') (py ''Password1'')
     = (alice_db, True, py ''Account created successfully.'')
   \<and> validate_password (py ''Password2'') = []
   \<and> register_user sample_hash alice_db (py ''alice'') (py ''Password2'')
       = (alice_db, False, py ''Username already exists.'')
   \<and> validate_password (py ''short'') \<noteq> []
   \<and> register_user sample_hash alice_db (py ''alice'') (py ''short'')
       = (alice_db, False, validate_password (py ''short''))
   \<and> login_user sample_hash alice_db (py ''alice'') (py ''Password1'')
       = Some (new_user sample_hash init_db (py ''alice'') (py ''Password1''))
   \<and> new_user sample_hash init_db (py ''alice'') (py ''Password1'')
       = \<lparr>u_id = 1, u_username = py ''alice'', u_password = sample_hash (py ''Password1'')\<rparr>"
proof -
  have a: "register_user sample_hash init_db (py ''alice'') (py ''Password1'')
     = (alice_db, True, py ''Account created successfully.'')"
    by code_simp
  have b: "validate_password (py ''Password2'') = []"
    by code_simp
  have c: "validate_password (py ''short'') \<noteq> []"
    by code_simp
  have d: "new_user sample_hash init_db (py ''alice'') (py ''Password1'')
       = \<lparr>u_id = 1, u_username = py ''alice'', u_password = sample_hash (py ''Password1'')\<rparr>"
    by (simp add: new_user_def init_db_def next_rowid_def)
  from register_then_login [OF a, of "py ''Password2''"]
       register_then_login [OF a, of "py ''short''"] a b c d
  show ?thesis
    by simp
qed

theorem register_twice_counterexample:
  "register_user sample_hash init_db (py ''alice'') (py ''Password1'')
     = (alice_db, True, py ''Account created successfully.'')
   \<and> register_user sample_hash alice_db (py ''alice'') (py ''short'')
       = (alice_db, False, py ''Password must be at least 8 characters long.'')
   \<and> py ''Password must be at least 8 characters long.'' \<noteq> py ''Username already exists.''"
proof -
  have "register_user sample_hash init_db (py ''alice'') (py ''Password1'')
     = (alice_db, True, py ''Account created successfully.'')"
    by code_simp
  moreover have "validate_password (py ''short'')
      = py ''Password must be at least 8 characters long.''"
    by (simp add: validate_password_def py_def)
  ultimately show ?thesis
    by (simp add: register_user_cases messages_differ)
qed

end
